theory Spec2Isabelle
  imports Main "HOL-Library.Multiset" "HOL-Library.AList"
begin

section \<open>Staff pay calculator: values of the script\<close>

text \<open>
  The script (\<^verbatim>\<open>Code.js\<close>, and an earlier copy of it kept beside it) reads a work log
  from a spreadsheet, resolves a rate per task, groups the tasks per payee, appends invoice
  rows and marks the work as invoiced. The model follows the script function by function.

  Modelling conventions, each stated where it is used:
  \<^item> a spreadsheet cell holds text (a blank cell is the empty string); a read outside a row
    gives JavaScript's \<^verbatim>\<open>undefined\<close>;
  \<^item> a number is an integer or \<^verbatim>\<open>NaN\<close> (what \<^verbatim>\<open>parseFloat\<close> gives for a blank
    rate); fractions, infinities and rounding beyond 2^53 are outside the model;
  \<^item> a JavaScript object used as a dictionary is a finite map or, where the order of its
    keys is observable, an association list in insertion order; keys are assumed not to be
    names of \<^verbatim>\<open>Object.prototype\<close> nor array indices;
  \<^item> an exception is a value \<open>Inl e\<close>; the diagnostic log lines that the script stores
    in its script properties are not modelled.
\<close>

datatype cell = Str string | Undefined

datatype jsnum = Num int | NaN

text \<open>\<^verbatim>\<open>ToBoolean\<close>: the empty string, \<^verbatim>\<open>undefined\<close>, 0 and \<^verbatim>\<open>NaN\<close> are falsy.\<close>

fun truthy :: "cell \<Rightarrow> bool" where
  "truthy (Str s) = (s \<noteq> [])"
| "truthy Undefined = False"

fun truthyNum :: "jsnum \<Rightarrow> bool" where
  "truthyNum (Num n) = (n \<noteq> 0)"
| "truthyNum NaN = False"

text \<open>\<^verbatim>\<open>rate > 0\<close>: every comparison with \<^verbatim>\<open>NaN\<close> is false.\<close>

fun gtZero :: "jsnum \<Rightarrow> bool" where
  "gtZero (Num n) = (0 < n)"
| "gtZero NaN = False"

text \<open>\<^verbatim>\<open>ToString\<close>, as applied to a property key and inside a template literal.\<close>

fun toStr :: "cell \<Rightarrow> string" where
  "toStr (Str s) = s"
| "toStr Undefined = ''undefined''"

text \<open>Addition of numbers: \<^verbatim>\<open>NaN\<close> absorbs.\<close>

instantiation jsnum :: comm_monoid_add
begin

definition zero_jsnum :: jsnum where
  "zero_jsnum = Num 0"

fun plus_jsnum :: "jsnum \<Rightarrow> jsnum \<Rightarrow> jsnum" where
  "plus_jsnum (Num a) (Num b) = Num (a + b)"
| "plus_jsnum _ _ = NaN"

instance
proof (intro_classes, goal_cases)
  case (1 x y z)
  show ?case by (cases x; cases y; cases z) simp_all
next
  case (2 x y)
  show ?case by (cases x; cases y) simp_all
next
  case (3 x)
  show ?case by (cases x) (simp_all add: zero_jsnum_def)
qed

end

section \<open>The data of a run\<close>

text \<open>One unpaid row of the MASTER sheet, as \<^verbatim>\<open>getUnpaidWorkFromMaster\<close> pushes it.\<close>

record workItem =
  rowIndex :: nat
  staffName :: cell
  taskType :: cell
  league :: cell
  round :: cell
  team1 :: cell
  team2 :: cell
  playbackLink :: cell
  doneDate :: cell

text \<open>
  A resolved task: \<^verbatim>\<open>{...work, rate, rateSource, hasValidRate}\<close>. The rate source is the
  string the script stores: \<^verbatim>\<open>'custom'\<close>, \<^verbatim>\<open>'default'\<close> or \<^verbatim>\<open>'none'\<close>.
\<close>

record task = workItem +
  rate :: jsnum
  rateSource :: string
  hasValidRate :: bool

text \<open>
  A payment record. \<open>taskCount\<close> is a property that only the cleaned copy of the preview
  carries; \<open>None\<close> is a record without it.
\<close>

record payment =
  staffKey :: cell
  legalName :: cell
  hasMapping :: bool
  tasks :: "task list"
  totalAmount :: jsnum
  taskCount :: "nat option"

text \<open>One entry of \<^verbatim>\<open>errors.tasksWithNoRate\<close>.\<close>

record noRate =
  nrStaffName :: cell
  nrTaskType :: cell
  nrLeague :: cell
  nrRound :: cell
  nrTeams :: string

text \<open>
  The error collections. The two \<^verbatim>\<open>Set\<close>s are lists without repetition in insertion
  order (\<open>setAdd\<close>), which is the order \<^verbatim>\<open>Array.from\<close> gives.
\<close>

record errors =
  unmatchedTaskTypes :: "cell list"
  unmatchedStaffKeys :: "cell list"
  tasksWithNoRate :: "noRate list"

definition setAdd :: "'a \<Rightarrow> 'a list \<Rightarrow> 'a list" where
  "setAdd x xs = (if x \<in> set xs then xs else xs @ [x])"

text \<open>One task type of the pay configuration: \<^verbatim>\<open>{defaultRate, customRates}\<close>.\<close>

record rateEntry =
  defaultRate :: jsnum
  customRates :: "string \<rightharpoonup> jsnum"

type_synonym payConfig = "string \<rightharpoonup> rateEntry"
type_synonym staffMapping = "string \<rightharpoonup> string"
type_synonym payments = "(string \<times> payment) list"

section \<open>calculatePayments\<close>

text \<open>
  \<^verbatim>\<open>staffMapping[staffKey]\<close> read as a condition: the key is there and its name is not
  the empty string.
\<close>

definition hasName :: "staffMapping \<Rightarrow> cell \<Rightarrow> bool" where
  "hasName mapping key =
     (case mapping (toStr key) of None \<Rightarrow> False | Some n \<Rightarrow> n \<noteq> [])"

text \<open>\<^verbatim>\<open>const legalName = staffMapping[staffKey] || staffKey\<close>\<close>

definition legalNameOf :: "staffMapping \<Rightarrow> cell \<Rightarrow> cell" where
  "legalNameOf mapping key =
     (case mapping (toStr key) of
        None \<Rightarrow> key
      | Some n \<Rightarrow> if n \<noteq> [] then Str n else key)"


text \<open>
  The rate and its source (the \<^verbatim>\<open>if (payConfig[taskType])\<close> block): the custom rate when
  \<^verbatim>\<open>customRates[staffKey]\<close> is truthy, else the default rate; 0 and \<^verbatim>\<open>'none'\<close> when the
  task type has no entry.
\<close>

definition resolveRate :: "payConfig \<Rightarrow> cell \<Rightarrow> cell \<Rightarrow> jsnum \<times> string" where
  "resolveRate config key type =
     (case config (toStr type) of
        Some entry \<Rightarrow>
          (case customRates entry (toStr key) of
             Some r \<Rightarrow> if truthyNum r then (r, ''custom'') else (defaultRate entry, ''default'')
           | None \<Rightarrow> (defaultRate entry, ''default''))
      | None \<Rightarrow> (Num 0, ''none''))"

text \<open>The task pushed for a work item.\<close>

definition resolveTask :: "payConfig \<Rightarrow> workItem \<Rightarrow> task" where
  "resolveTask config wk =
     (let (r, src) = resolveRate config (staffName wk) (taskType wk)
      in \<lparr>rowIndex = rowIndex wk, staffName = staffName wk, taskType = taskType wk,
          league = league wk, round = round wk, team1 = team1 wk, team2 = team2 wk,
          playbackLink = playbackLink wk, doneDate = doneDate wk,
          rate = r, rateSource = src, hasValidRate = gtZero r\<rparr>)"

text \<open>The entry pushed to \<^verbatim>\<open>errors.tasksWithNoRate\<close>.\<close>

definition noRateOf :: "workItem \<Rightarrow> noRate" where
  "noRateOf wk =
     \<lparr>nrStaffName = staffName wk, nrTaskType = taskType wk, nrLeague = league wk,
      nrRound = round wk, nrTeams = toStr (team1 wk) @ '' vs '' @ toStr (team2 wk)\<rparr>"

text \<open>
  The body of \<^verbatim>\<open>workLogData.forEach\<close>, on the pair of \<^verbatim>\<open>payments\<close> and
  \<^verbatim>\<open>errors\<close>, in the order of the script: the staff key check, the rate, the legal name,
  the record created on first sight, the task pushed and the total increased. The
  \<^verbatim>\<open>if (payConfig[taskType])\<close> block is read twice here: by \<open>resolveTask\<close> for the rate
  and its source, and by \<open>errs2\<close> for the two error collections of its else branch.
\<close>

definition calcStep ::
  "payConfig \<Rightarrow> staffMapping \<Rightarrow> workItem \<Rightarrow> payments \<times> errors \<Rightarrow> payments \<times> errors" where
  "calcStep config mapping wk acc =
     (let pays = fst acc; errs = snd acc;
          key = staffName wk;
          errs1 = (if \<not> hasName mapping key
                   then errs\<lparr>unmatchedStaffKeys := setAdd key (unmatchedStaffKeys errs)\<rparr>
                   else errs);
          errs2 = (case config (toStr (taskType wk)) of
                     Some entry \<Rightarrow> errs1
                   | None \<Rightarrow>
                       errs1\<lparr>unmatchedTaskTypes := setAdd (taskType wk) (unmatchedTaskTypes errs1),
                             tasksWithNoRate := tasksWithNoRate errs1 @ [noRateOf wk]\<rparr>);
          t = resolveTask config wk;
          name = legalNameOf mapping key;
          pays1 = (if map_of pays (toStr name) = None
                   then pays @ [(toStr name,
                          \<lparr>staffKey = key, legalName = name,
                           hasMapping = hasName mapping key,
                           tasks = [], totalAmount = Num 0, taskCount = None\<rparr>)]
                   else pays);
          pays2 = AList.map_entry (toStr name)
                    (\<lambda>p. p\<lparr>tasks := tasks p @ [t], totalAmount := totalAmount p + rate t\<rparr>) pays1
      in (pays2, errs2))"

definition noErrors :: errors where
  "noErrors = \<lparr>unmatchedTaskTypes = [], unmatchedStaffKeys = [], tasksWithNoRate = []\<rparr>"

definition calculatePayments ::
  "workItem list \<Rightarrow> payConfig \<Rightarrow> staffMapping \<Rightarrow> payments \<times> errors" where
  "calculatePayments workLogData config mapping =
     fold (calcStep config mapping) workLogData ([], noErrors)"

text \<open>\<^verbatim>\<open>Object.values(payments).reduce((sum, p) => sum + p.totalAmount, 0)\<close>\<close>

definition grandTotal :: "payments \<Rightarrow> jsnum" where
  "grandTotal pays = foldl (\<lambda>sum p. sum + totalAmount p) (Num 0) (map snd pays)"

section \<open>Sheets\<close>

datatype error = Error string | TypeError string | RangeError string

text \<open>
  The values of a sheet's data range, \<^verbatim>\<open>getDataRange().getValues()\<close>: a list of rows.
  \<^verbatim>\<open>row[i]\<close> is \<^verbatim>\<open>undefined\<close> outside the row, in particular at the index -1 that
  \<^verbatim>\<open>getColumnIndices\<close> stores for a column it has not found.
\<close>

type_synonym grid = "string list list"

definition cellAt :: "string list \<Rightarrow> int \<Rightarrow> cell" where
  "cellAt row i = (if 0 \<le> i \<and> i < int (length row) then Str (row ! nat i) else Undefined)"

text \<open>\<^verbatim>\<open>headers.indexOf(name)\<close>: the first position of the name, or -1.\<close>

fun indexOfStr :: "string list \<Rightarrow> string \<Rightarrow> int" where
  "indexOfStr [] s = -1"
| "indexOfStr (h # hs) s =
     (if h = s then 0 else (let i = indexOfStr hs s in if i = -1 then -1 else i + 1))"

definition indexOf :: "string list \<Rightarrow> cell \<Rightarrow> int" where
  "indexOf hs name = (case name of Str s \<Rightarrow> indexOfStr hs s | Undefined \<Rightarrow> -1)"

text \<open>
  \<^verbatim>\<open>sheet.getRange(headerRow, 1, 1, sheet.getLastColumn()).getValues()[0]\<close>, with
  1-based \<open>n\<close>. A row below the data range is blank, and no name is found in it: it is
  read as the empty list.
\<close>

definition headerRow :: "grid \<Rightarrow> nat \<Rightarrow> string list" where
  "headerRow data n = (if 0 < n \<and> n \<le> length data then data ! (n - 1) else [])"

text \<open>\<^verbatim>\<open>getColumnIndex(sheet, columnName, headerRow)\<close>: 1-based, throws when not found.\<close>

definition getColumnIndex :: "grid \<Rightarrow> string \<Rightarrow> nat \<Rightarrow> error + nat" where
  "getColumnIndex data columnName n =
     (let index = indexOf (headerRow data n) (Str columnName)
      in if index = -1
         then Inl (Error (''Column '' @ [CHR 0x22] @ columnName @ [CHR 0x22] @
                '' not found in sheet''))
         else Inr (nat (index + 1)))"

text \<open>\<^verbatim>\<open>toLowerCase\<close> on ASCII letters, and \<^verbatim>\<open>includes\<close>.\<close>

definition lowerChar :: "char \<Rightarrow> char" where
  "lowerChar c =
     (let n = (of_char c :: nat) in if 65 \<le> n \<and> n \<le> 90 then char_of (n + 32) else c)"

definition toLowerCase :: "string \<Rightarrow> string" where
  "toLowerCase s = map lowerChar s"

fun includesStr :: "string \<Rightarrow> string \<Rightarrow> bool" where
  "includesStr [] sub = (sub = [])"
| "includesStr (c # cs) sub = (take (length sub) (c # cs) = sub \<or> includesStr cs sub)"

text \<open>
  \<^verbatim>\<open>actualHeaders.find(h => h && h.toString().toLowerCase().includes('status'))\<close>
\<close>

definition statusColumnName :: "string list \<Rightarrow> cell" where
  "statusColumnName actualHeaders =
     (case List.find (\<lambda>h. h \<noteq> [] \<and> includesStr (toLowerCase h) ''status'') actualHeaders of
        None \<Rightarrow> Undefined
      | Some h \<Rightarrow> Str h)"

text \<open>
  The spreadsheets the script works on: the MASTER sheet of the work log and the Invoicing
  sheet (\<open>None\<close>: \<^verbatim>\<open>getSheetByName\<close> returns null), and what \<^verbatim>\<open>getPayConfiguration\<close>
  and \<^verbatim>\<open>getStaffMapping\<close> build from their two sheets (\<open>None\<close>: the sheet is missing);
  the parsing of those two sheets is not modelled. Of the Invoicing sheet the model keeps
  the header row (row 2) and the rows of values written below it.
\<close>

datatype ivalue = IText cell | INumber jsnum | IDate int

record invoicingSheet =
  invHeaders :: "string list"
  invRows :: "ivalue list list"

record world =
  master :: "grid option"
  invoicing :: "invoicingSheet option"
  payConfigSheet :: "payConfig option"
  staffSheet :: "staffMapping option"

section \<open>getUnpaidWorkFromMaster\<close>

text \<open>\<^verbatim>\<open>status === 'Done' && paid !== 'Paid' && paid !== 'Invoiced'\<close>\<close>

definition eligible :: "cell \<Rightarrow> cell \<Rightarrow> bool" where
  "eligible status paid =
     (status = Str ''Done'' \<and> paid \<noteq> Str ''Paid'' \<and> paid \<noteq> Str ''Invoiced'')"

text \<open>The object pushed for the row \<open>data[i]\<close>; \<open>hs\<close> is the header row.\<close>

definition unpaidRow :: "string list \<Rightarrow> nat \<Rightarrow> string list \<Rightarrow> workItem" where
  "unpaidRow hs i row =
     \<lparr>rowIndex = i + 1,
      staffName = cellAt row (indexOf hs (Str ''Assign'')),
      taskType = cellAt row (indexOf hs (Str ''STATS LEVEL'')),
      league = cellAt row (indexOf hs (Str ''LEAGUE'')),
      round = cellAt row (indexOf hs (Str ''Round'')),
      team1 = cellAt row (indexOf hs (Str ''Team 1'')),
      team2 = cellAt row (indexOf hs (Str ''Team 2'')),
      playbackLink = cellAt row (indexOf hs (Str ''Playback Link'')),
      doneDate = cellAt row (indexOf hs (Str ''Done Date''))\<rparr>"

text \<open>
  In the loop, for the row \<open>data[i]\<close>: \<^verbatim>\<open>const status = row[cols[statusColumnName]]\<close>,
  \<^verbatim>\<open>const paid = row[cols['Paid']]\<close> and the condition on them.
\<close>

definition statusOf :: "grid \<Rightarrow> nat \<Rightarrow> cell" where
  "statusOf data i =
     (let hs = headerRow data 2 in cellAt (data ! i) (indexOf hs (statusColumnName hs)))"

definition paidOf :: "grid \<Rightarrow> nat \<Rightarrow> cell" where
  "paidOf data i = cellAt (data ! i) (indexOf (headerRow data 2) (Str ''Paid''))"

definition unpaidAt :: "grid \<Rightarrow> nat \<Rightarrow> bool" where
  "unpaidAt data i = eligible (statusOf data i) (paidOf data i)"

text \<open>
  The loop \<^verbatim>\<open>for (let i = 2; i < data.length; i++)\<close> skips the two header rows and
  pushes the eligible rows in order.
\<close>

definition getUnpaidWorkFromMaster :: "world \<Rightarrow> error + workItem list" where
  "getUnpaidWorkFromMaster w =
     (case master w of
        None \<Rightarrow> Inl (Error ''MASTER sheet not found in work log spreadsheet'')
      | Some data \<Rightarrow>
          Inr (map (\<lambda>i. unpaidRow (headerRow data 2) i (data ! i))
                 (filter (unpaidAt data) [2..<length data])))"

definition getPayConfiguration :: "world \<Rightarrow> error + payConfig" where
  "getPayConfiguration w =
     (case payConfigSheet w of
        None \<Rightarrow> Inl (Error ''Pay Config sheet not found'')
      | Some config \<Rightarrow> Inr config)"

definition getStaffMapping :: "world \<Rightarrow> error + staffMapping" where
  "getStaffMapping w =
     (case staffSheet w of
        None \<Rightarrow> Inl (Error ''Staff Key to Staff name sheet not found'')
      | Some mapping \<Rightarrow> Inr mapping)"

section \<open>markWorkAsInvoiced\<close>

text \<open>
  \<^verbatim>\<open>masterSheet.getRange(r, c).setValue(v)\<close>, 1-based. A write to the right of a row or
  below the data range extends the range with blank cells.
\<close>

definition setCell :: "string list \<Rightarrow> nat \<Rightarrow> string \<Rightarrow> string list" where
  "setCell row c v = (row @ replicate (c - length row) [])[c - 1 := v]"

definition setValue :: "grid \<Rightarrow> nat \<Rightarrow> nat \<Rightarrow> string \<Rightarrow> grid" where
  "setValue data r c v =
     (let rows = data @ replicate (r - length data) []
      in rows[r - 1 := setCell (rows ! (r - 1)) c v])"

text \<open>
  The loop \<^verbatim>\<open>workLogData.forEach(work => ...setValue('Invoiced'))\<close>: every row index
  is written, whatever the cell holds. \<^verbatim>\<open>getRange\<close> throws on row 0, and the rows written
  before stay written.
\<close>

fun markRows :: "nat \<Rightarrow> workItem list \<Rightarrow> grid \<Rightarrow> error option \<times> grid" where
  "markRows c [] data = (None, data)"
| "markRows c (wk # rest) data =
     (if rowIndex wk = 0
      then (Some (Error ''The starting row of the range is too small''), data)
      else markRows c rest (setValue data (rowIndex wk) c ''Invoiced''))"

definition markWorkAsInvoiced :: "workItem list \<Rightarrow> world \<Rightarrow> error option \<times> world" where
  "markWorkAsInvoiced workLogData w =
     (case master w of
        None \<Rightarrow> (Some (TypeError ''Cannot read properties of null''), w)
      | Some data \<Rightarrow>
          (case getColumnIndex data ''Paid'' 2 of
             Inl e \<Rightarrow> (Some e, w)
           | Inr paidColumnIndex \<Rightarrow>
               (let (e, data') = markRows paidColumnIndex workLogData data
                in (e, w\<lparr>master := Some data'\<rparr>))))"

section \<open>createInvoice\<close>

text \<open>\<^verbatim>\<open>String(n)\<close> for a natural number, \<^verbatim>\<open>padStart\<close> and \<^verbatim>\<open>join\<close>.\<close>

definition digitChar :: "nat \<Rightarrow> char" where
  "digitChar d = char_of (48 + d)"

fun showNat :: "nat \<Rightarrow> string" where
  "showNat n = (if n < 10 then [digitChar n] else showNat (n div 10) @ [digitChar (n mod 10)])"

declare showNat.simps [simp del]

definition padStart :: "nat \<Rightarrow> char \<Rightarrow> string \<Rightarrow> string" where
  "padStart n c s = replicate (n - length s) c @ s"

fun join :: "string \<Rightarrow> string list \<Rightarrow> string" where
  "join sep [] = []"
| "join sep [x] = x"
| "join sep (x # y # ys) = x @ sep @ join sep (y # ys)"

text \<open>
  What the script reads from outside at the start of an invoice run: \<^verbatim>\<open>new Date()\<close>
  (milliseconds), its \<^verbatim>\<open>yyyyMMdd\<close> rendering, and \<^verbatim>\<open>Math.floor(Math.random() * 1000)\<close>.
\<close>

record clock =
  timestamp :: int
  dateStr :: string
  random1000 :: nat

text \<open>The positions of the six invoice columns in the header row, -1 when not found.\<close>

record invoiceColumns =
  colInvoiceNumber :: int
  colDate :: int
  colContractor :: int
  colWorkDone :: int
  colTotal :: int
  colPlaybackLinks :: int

definition findInvoiceColumns :: "string list \<Rightarrow> invoiceColumns" where
  "findInvoiceColumns headers =
     \<lparr>colInvoiceNumber = indexOf headers (Str ''Invoice Number''),
      colDate = indexOf headers (Str ''Date''),
      colContractor = indexOf headers (Str ''Contractor''),
      colWorkDone = indexOf headers (Str ''Work done''),
      colTotal = indexOf headers (Str ''Total''),
      colPlaybackLinks = indexOf headers (Str ''Playback Links'')\<rparr>"

text \<open>\<^verbatim>\<open>Object.values(invoiceColumns)\<close>\<close>

definition columnValues :: "invoiceColumns \<Rightarrow> int list" where
  "columnValues cols =
     [colInvoiceNumber cols, colDate cols, colContractor cols, colWorkDone cols,
      colTotal cols, colPlaybackLinks cols]"

text \<open>
  \<^verbatim>\<open>tasksByType\<close>: the tasks of a payment grouped by task type, the types in the order of
  their first task.
\<close>

definition groupStep :: "task \<Rightarrow> (string \<times> task list) list \<Rightarrow> (string \<times> task list) list" where
  "groupStep t acc =
     (let k = toStr (taskType t);
          acc1 = (if map_of acc k = None then acc @ [(k, [])] else acc)
      in AList.map_entry k (\<lambda>ts. ts @ [t]) acc1)"

definition groupByType :: "task list \<Rightarrow> (string \<times> task list) list" where
  "groupByType ts = fold groupStep ts []"

text \<open>\<^verbatim>\<open>workDoneSummary\<close>: one line \<^verbatim>\<open>`${tasks.length} x ${type}`\<close> per task type.\<close>

definition workDoneSummary :: "(string \<times> task list) list \<Rightarrow> string" where
  "workDoneSummary tasksByType =
     join [CHR 0x0A] (map (\<lambda>(type, ts). showNat (length ts) @ '' x '' @ type) tasksByType)"

text \<open>\<^verbatim>\<open>playbackLinks\<close>: per task type a header and the numbered links.\<close>

definition playbackLinksText :: "(string \<times> task list) list \<Rightarrow> string" where
  "playbackLinksText tasksByType =
     join [CHR 0x0A, CHR 0x0A]
       (map (\<lambda>(type, ts).
               type @ '' ('' @ showNat (length ts) @ '' tasks):'' @ [CHR 0x0A] @
               join [CHR 0x0A]
                 (map (\<lambda>(index, t). ''  '' @ showNat (index + 1) @ ''. '' @ toStr (playbackLink t))
                    (enumerate 0 ts)))
          tasksByType)"

text \<open>
  \<^verbatim>\<open>row[i] = v\<close> on an array, for an index that is not -1: an index beyond the end
  extends the array, the cells between staying empty (\<^verbatim>\<open>undefined\<close>).
\<close>

definition setAt :: "ivalue list \<Rightarrow> int \<Rightarrow> ivalue \<Rightarrow> ivalue list" where
  "setAt row i v = (row @ replicate (nat i + 1 - length row) (IText Undefined))[nat i := v]"

text \<open>The six guarded assignments \<^verbatim>\<open>if (invoiceColumns[...] !== -1) row[...] = ...\<close>.\<close>

definition fillRow ::
  "invoiceColumns \<Rightarrow> string \<Rightarrow> int \<Rightarrow> payment \<Rightarrow> ivalue list \<Rightarrow> ivalue list" where
  "fillRow cols number stamp p row0 =
     (let tasksByType = groupByType (tasks p);
          row1 = (if colInvoiceNumber cols \<noteq> -1
                  then setAt row0 (colInvoiceNumber cols) (IText (Str number)) else row0);
          row2 = (if colDate cols \<noteq> -1 then setAt row1 (colDate cols) (IDate stamp) else row1);
          row3 = (if colContractor cols \<noteq> -1
                  then setAt row2 (colContractor cols) (IText (legalName p)) else row2);
          row4 = (if colWorkDone cols \<noteq> -1
                  then setAt row3 (colWorkDone cols) (IText (Str (workDoneSummary tasksByType)))
                  else row3);
          row5 = (if colTotal cols \<noteq> -1
                  then setAt row4 (colTotal cols) (INumber (totalAmount p)) else row4)
      in if colPlaybackLinks cols \<noteq> -1
         then setAt row5 (colPlaybackLinks cols) (IText (Str (playbackLinksText tasksByType)))
         else row5)"

text \<open>
  One row of \<^verbatim>\<open>createInvoice\<close>. \<^verbatim>\<open>Math.max\<close> of no column at all is
  \<^verbatim>\<open>-Infinity\<close>, and \<^verbatim>\<open>new Array(-Infinity + 1)\<close> throws a RangeError.
\<close>

definition invoiceRow :: "invoiceColumns \<Rightarrow> string \<Rightarrow> int \<Rightarrow> payment \<Rightarrow> error + ivalue list" where
  "invoiceRow cols number stamp p =
     (let found = filter (\<lambda>i. i \<noteq> -1) (columnValues cols)
      in if found = [] then Inl (RangeError ''Invalid array length'')
         else (let maxColumnIndex = fold max found (hd found)
               in Inr (fillRow cols number stamp p
                         (replicate (nat (maxColumnIndex + 1)) (IText (Str []))))))"

text \<open>\<^verbatim>\<open>Object.values(payments).forEach\<close>: the rows in order, stopping at an exception.\<close>

fun invoiceRows ::
  "invoiceColumns \<Rightarrow> string \<Rightarrow> int \<Rightarrow> payment list \<Rightarrow> error + ivalue list list" where
  "invoiceRows cols number stamp [] = Inr []"
| "invoiceRows cols number stamp (p # ps) =
     (case invoiceRow cols number stamp p of
        Inl e \<Rightarrow> Inl e
      | Inr row \<Rightarrow>
          (case invoiceRows cols number stamp ps of
             Inl e \<Rightarrow> Inl e
           | Inr rows \<Rightarrow> Inr (row # rows)))"

record invoiceResult =
  invoiceNumber :: string
  invoiceDate :: int
  rowsCreated :: nat

text \<open>
  \<^verbatim>\<open>createInvoice\<close> of \<^verbatim>\<open>Code.js\<close>: one invoice number for the run, the rows built in
  memory and then written below the last row. The copy of formulas, the wrapping and the
  row heights are not modelled.
\<close>

definition createInvoice :: "clock \<Rightarrow> payments \<Rightarrow> world \<Rightarrow> (error + invoiceResult) \<times> world" where
  "createInvoice clk pays w =
     (case invoicing w of
        None \<Rightarrow> (Inl (Error ''Invoicing sheet not found''), w)
      | Some sheet \<Rightarrow>
          (let cols = findInvoiceColumns (invHeaders sheet);
               number = ''INV-'' @ dateStr clk @ ''-'' @
                        padStart 3 (CHR ''0'') (showNat (random1000 clk))
           in case invoiceRows cols number (timestamp clk) (map snd pays) of
                Inl e \<Rightarrow> (Inl e, w)
              | Inr invoiceData \<Rightarrow>
                  (Inr \<lparr>invoiceNumber = number, invoiceDate = timestamp clk,
                        rowsCreated = length invoiceData\<rparr>,
                   w\<lparr>invoicing := Some (sheet\<lparr>invRows := invRows sheet @ invoiceData\<rparr>)\<rparr>)))"

section \<open>createInvoices, the earlier copy\<close>



section \<open>The entry points\<close>

record summary =
  totalTasks :: nat
  totalStaff :: nat
  summaryTotal :: jsnum
  summaryErrors :: "errors option"

text \<open>
  What an entry point returns: \<^verbatim>\<open>{success: false, message: 'No unpaid work found'}\<close>,
  \<^verbatim>\<open>{success: false, error}\<close>, or the success object of the entry point.
\<close>

datatype response =
    NoUnpaidWork
  | Failure error
  | InvoicesCreated summary
  | Calculated "workItem list" payments errors summary
  | PreviewCalculated summary payments
  | InvoicedAndMarked invoiceResult

text \<open>\<^verbatim>\<open>handleCalculatePayRequest\<close>: the commit of the web application.\<close>

definition handleCalculatePayRequest :: "clock \<Rightarrow> world \<Rightarrow> response \<times> world" where
  "handleCalculatePayRequest clk w =
     (case getUnpaidWorkFromMaster w of
        Inl e \<Rightarrow> (Failure e, w)
      | Inr workLogData \<Rightarrow>
          if length workLogData = 0 then (NoUnpaidWork, w)
          else
            (case getPayConfiguration w of
               Inl e \<Rightarrow> (Failure e, w)
             | Inr config \<Rightarrow>
                 (case getStaffMapping w of
                    Inl e \<Rightarrow> (Failure e, w)
                  | Inr mapping \<Rightarrow>
                      (let (pays, errs) = calculatePayments workLogData config mapping
                       in case createInvoice clk pays w of
                            (Inl e, w1) \<Rightarrow> (Failure e, w1)
                          | (Inr res, w1) \<Rightarrow>
                              (case markWorkAsInvoiced workLogData w1 of
                                 (Some e, w2) \<Rightarrow> (Failure e, w2)
                               | (None, w2) \<Rightarrow>
                                   (InvoicesCreated
                                      \<lparr>totalTasks = length workLogData,
                                       totalStaff = length pays,
                                       summaryTotal = grandTotal pays,
                                       summaryErrors = Some errs\<rparr>, w2))))))"

text \<open>\<^verbatim>\<open>createInvoicesAndMark(workLogData, payments)\<close>: the commit of the API.\<close>

definition createInvoicesAndMark ::
  "clock \<Rightarrow> workItem list \<Rightarrow> payments \<Rightarrow> world \<Rightarrow> response \<times> world" where
  "createInvoicesAndMark clk workLogData pays w =
     (if length workLogData = 0 then (Failure (Error ''No work data provided''), w)
      else if length pays = 0 then (Failure (Error ''No payment data provided''), w)
      else
        (case createInvoice clk pays w of
           (Inl e, w1) \<Rightarrow> (Failure e, w1)
         | (Inr invoiceResult, w1) \<Rightarrow>
             (case markWorkAsInvoiced workLogData w1 of
                (Some e, w2) \<Rightarrow> (Failure e, w2)
              | (None, w2) \<Rightarrow> (InvoicedAndMarked invoiceResult, w2))))"

text \<open>\<^verbatim>\<open>calculateStaffPay\<close>: the calculation of the API, which returns the payments.\<close>

definition calculateStaffPay :: "world \<Rightarrow> response" where
  "calculateStaffPay w =
     (case getUnpaidWorkFromMaster w of
        Inl e \<Rightarrow> Failure e
      | Inr workLogData \<Rightarrow>
          if length workLogData = 0 then NoUnpaidWork
          else
            (case getPayConfiguration w of
               Inl e \<Rightarrow> Failure e
             | Inr config \<Rightarrow>
                 (case getStaffMapping w of
                    Inl e \<Rightarrow> Failure e
                  | Inr mapping \<Rightarrow>
                      (let (pays, errs) = calculatePayments workLogData config mapping
                       in Calculated workLogData pays errs
                            \<lparr>totalTasks = length workLogData,
                             totalStaff = length pays,
                             summaryTotal = grandTotal pays,
                             summaryErrors = None\<rparr>))))"

text \<open>
  The cleaned copy that the preview returns. \<^verbatim>\<open>String(x || '')\<close> gives the empty
  string for \<^verbatim>\<open>undefined\<close>; \<^verbatim>\<open>Number(x || 0)\<close> gives 0 for \<^verbatim>\<open>NaN\<close>; the task
  keeps ten properties (no \<^verbatim>\<open>playbackLink\<close>, no \<^verbatim>\<open>doneDate\<close>) and the payment gains
  \<^verbatim>\<open>taskCount\<close>.
\<close>

definition stringOr :: "cell \<Rightarrow> cell" where
  "stringOr x = Str (if truthy x then toStr x else [])"

definition numberOr :: "jsnum \<Rightarrow> jsnum" where
  "numberOr x = (if truthyNum x then x else Num 0)"

definition previewTask :: "task \<Rightarrow> task" where
  "previewTask t =
     \<lparr>rowIndex = rowIndex t, staffName = stringOr (staffName t),
      taskType = stringOr (taskType t), league = stringOr (league t),
      round = stringOr (round t), team1 = stringOr (team1 t), team2 = stringOr (team2 t),
      playbackLink = Undefined, doneDate = Undefined,
      rate = numberOr (rate t), rateSource = rateSource t, hasValidRate = hasValidRate t\<rparr>"

definition previewPayment :: "payment \<Rightarrow> payment" where
  "previewPayment p =
     \<lparr>staffKey = stringOr (staffKey p), legalName = stringOr (legalName p),
      hasMapping = hasMapping p, tasks = map previewTask (tasks p),
      totalAmount = numberOr (totalAmount p), taskCount = Some (length (tasks p))\<rparr>"

text \<open>\<^verbatim>\<open>handleCalculatePayPreviewRequest\<close>: the preview, which writes nothing.\<close>

definition handleCalculatePayPreviewRequest :: "world \<Rightarrow> response" where
  "handleCalculatePayPreviewRequest w =
     (case getUnpaidWorkFromMaster w of
        Inl e \<Rightarrow> Failure e
      | Inr workLogData \<Rightarrow>
          if length workLogData = 0 then NoUnpaidWork
          else
            (case getPayConfiguration w of
               Inl e \<Rightarrow> Failure e
             | Inr config \<Rightarrow>
                 (case getStaffMapping w of
                    Inl e \<Rightarrow> Failure e
                  | Inr mapping \<Rightarrow>
                      (let (pays, errs) = calculatePayments workLogData config mapping
                       in PreviewCalculated
                            \<lparr>totalTasks = length workLogData,
                             totalStaff = length pays,
                             summaryTotal = grandTotal pays,
                             summaryErrors = Some errs\<rparr>
                            (map (\<lambda>(name, p). (name, previewPayment p)) pays)))))"

section \<open>A small run\<close>

text \<open>
  A MASTER sheet with a title row, the header row and four rows of work; a pay
  configuration with one task type and one custom rate; a staff mapping that gives two
  staff keys the same legal name.
\<close>

definition exHeaders :: "string list" where
  "exHeaders =
     [''Assign'', ''LEAGUE'', ''Round'', ''Team 1'', ''Team 2'', ''STATS LEVEL'',
      ''Playback Link'', ''Status'', ''Paid'', ''Done Date'']"

definition exMaster :: grid where
  "exMaster =
     [[''Work log'', [], [], [], [], [], [], [], [], []],
      exHeaders,
      [''S1'', ''NBL'', ''1'', ''Lions'', ''Bears'', ''Play-by-play'', ''http://v/1'', ''Done'', [],
       ''2026-01-05''],
      [''S2'', ''NBL'', ''1'', ''Hawks'', ''Owls'', ''Play-by-play'', ''http://v/2'', ''Done'',
       ''Paid'', ''2026-01-05''],
      [''S3'', ''NBL'', ''2'', ''Lions'', ''Owls'', ''Basic'', ''http://v/3'', ''Done'', [],
       ''2026-01-06''],
      [''S4'', ''NBL'', ''2'', ''Hawks'', ''Bears'', ''Play-by-play'', ''http://v/4'', ''Assigned'',
       [], []]]"

definition exEntry :: rateEntry where
  "exEntry = \<lparr>defaultRate = Num 100000, customRates = map_of [(''S1'', Num 150000)]\<rparr>"

definition exConfig :: payConfig where
  "exConfig = map_of [(''Play-by-play'', exEntry)]"

definition exStaff :: staffMapping where
  "exStaff = map_of [(''S1'', ''Alice Nguyen''), (''S3'', ''Alice Nguyen'')]"

definition exInvoicing :: invoicingSheet where
  "exInvoicing =
     \<lparr>invHeaders = [''Invoice Number'', ''Date'', ''Contractor'', ''Work done'', ''Total'',
                     ''Playback Links''],
      invRows = []\<rparr>"

definition exWorld :: world where
  "exWorld =
     \<lparr>master = Some exMaster, invoicing = Some exInvoicing,
      payConfigSheet = Some exConfig, staffSheet = Some exStaff\<rparr>"

definition exClock :: clock where
  "exClock = \<lparr>timestamp = 1767571200000, dateStr = ''20260105'', random1000 = 42\<rparr>"

text \<open>The work item of a sheet row, with a staff key and a task type only.\<close>

definition exItem :: "nat \<Rightarrow> string \<Rightarrow> string \<Rightarrow> workItem" where
  "exItem r key type =
     \<lparr>rowIndex = r, staffName = Str key, taskType = Str type, league = Str [], round = Str [],
      team1 = Str [], team2 = Str [], playbackLink = Str [], doneDate = Str []\<rparr>"


text \<open>The two items that the selection finds in the small run, and their payments.\<close>

definition exWork :: "workItem list" where
  "exWork =
     [\<lparr>rowIndex = 3, staffName = Str ''S1'', taskType = Str ''Play-by-play'',
       league = Str ''NBL'', round = Str ''1'', team1 = Str ''Lions'', team2 = Str ''Bears'',
       playbackLink = Str ''http://v/1'', doneDate = Str ''2026-01-05''\<rparr>,
      \<lparr>rowIndex = 5, staffName = Str ''S3'', taskType = Str ''Basic'',
       league = Str ''NBL'', round = Str ''2'', team1 = Str ''Lions'', team2 = Str ''Owls'',
       playbackLink = Str ''http://v/3'', doneDate = Str ''2026-01-06''\<rparr>]"

text \<open>Payments for two payees.\<close>

definition exTwoPays :: payments where
  "exTwoPays =
     fst (calculatePayments [exItem 3 ''S1'' ''Play-by-play'', exItem 4 ''S2'' ''Play-by-play'']
            exConfig exStaff)"

text \<open>The same spreadsheets without an Invoicing sheet.\<close>

definition exNoInvoicing :: world where
  "exNoInvoicing = exWorld\<lparr>invoicing := None\<rparr>"


text \<open>
  The payment of the small run as \<^verbatim>\<open>calculatePayments\<close> builds it, and the copy of it
  that the preview returns.
\<close>

definition exPayment :: payment where
  "exPayment =
     \<lparr>staffKey = Str ''S1'', legalName = Str ''Alice Nguyen'', hasMapping = True,
      tasks =
        [\<lparr>rowIndex = 3, staffName = Str ''S1'', taskType = Str ''Play-by-play'',
          league = Str ''NBL'', round = Str ''1'', team1 = Str ''Lions'', team2 = Str ''Bears'',
          playbackLink = Str ''http://v/1'', doneDate = Str ''2026-01-05'',
          rate = Num 150000, rateSource = ''custom'', hasValidRate = True\<rparr>,
         \<lparr>rowIndex = 5, staffName = Str ''S3'', taskType = Str ''Basic'',
          league = Str ''NBL'', round = Str ''2'', team1 = Str ''Lions'', team2 = Str ''Owls'',
          playbackLink = Str ''http://v/3'', doneDate = Str ''2026-01-06'',
          rate = Num 0, rateSource = ''none'', hasValidRate = False\<rparr>],
      totalAmount = Num 150000, taskCount = None\<rparr>"

definition exPreviewPayment :: payment where
  "exPreviewPayment =
     \<lparr>staffKey = Str ''S1'', legalName = Str ''Alice Nguyen'', hasMapping = True,
      tasks =
        [\<lparr>rowIndex = 3, staffName = Str ''S1'', taskType = Str ''Play-by-play'',
          league = Str ''NBL'', round = Str ''1'', team1 = Str ''Lions'', team2 = Str ''Bears'',
          playbackLink = Undefined, doneDate = Undefined,
          rate = Num 150000, rateSource = ''custom'', hasValidRate = True\<rparr>,
         \<lparr>rowIndex = 5, staffName = Str ''S3'', taskType = Str ''Basic'',
          league = Str ''NBL'', round = Str ''2'', team1 = Str ''Lions'', team2 = Str ''Owls'',
          playbackLink = Undefined, doneDate = Undefined,
          rate = Num 0, rateSource = ''none'', hasValidRate = False\<rparr>],
      totalAmount = Num 150000, taskCount = Some 2\<rparr>"

definition exErrors :: errors where
  "exErrors =
     \<lparr>unmatchedTaskTypes = [Str ''Basic''], unmatchedStaffKeys = [],
      tasksWithNoRate =
        [\<lparr>nrStaffName = Str ''S3'', nrTaskType = Str ''Basic'', nrLeague = Str ''NBL'',
          nrRound = Str ''2'', nrTeams = ''Lions vs Owls''\<rparr>]\<rparr>"

section \<open>Properties of calculatePayments\<close>















section \<open>Properties of the selection\<close>





section \<open>Properties of the marking\<close>

lemma cellAt_setCell: "0 < c \<Longrightarrow> cellAt (setCell row c v) (int c - 1) = Str v"
  by (auto simp: cellAt_def setCell_def nth_list_update)

lemma length_setValue: "0 < r \<Longrightarrow> length (setValue data r c v) = max (length data) r"
  by (auto simp: setValue_def Let_def)

lemma setValue_other:
  "j \<noteq> r - 1 \<Longrightarrow> j < length data \<Longrightarrow> setValue data r c v ! j = data ! j"
  by (simp add: setValue_def Let_def nth_append)

lemma setValue_row:
  "0 < r \<Longrightarrow> 0 < c \<Longrightarrow> cellAt (setValue data r c v ! (r - 1)) (int c - 1) = Str v"
  by (simp add: setValue_def Let_def cellAt_setCell)

text \<open>
  The loop of the marking: with row numbers from 1 on it does not throw, every row number
  listed holds \<^verbatim>\<open>'Invoiced'\<close> in the column afterwards, and the rows not listed are as
  before.
\<close>

lemma markRows_marks:
  "(\<forall>wk\<in>set ws. 0 < rowIndex wk) \<Longrightarrow> 0 < c \<Longrightarrow>
   \<exists>data'. markRows c ws data = (None, data')
     \<and> length data \<le> length data'
     \<and> (\<forall>wk\<in>set ws. rowIndex wk \<le> length data'
            \<and> cellAt (data' ! (rowIndex wk - 1)) (int c - 1) = Str ''Invoiced'')
     \<and> (\<forall>j<length data. Suc j \<notin> rowIndex ` set ws \<longrightarrow> data' ! j = data ! j)
     \<and> ((\<forall>wk\<in>set ws. rowIndex wk \<le> length data) \<longrightarrow> length data' = length data)"
proof (induction ws arbitrary: data)
  case Nil
  then show ?case by simp
next
  case (Cons wk ws)
  let ?r = "rowIndex wk"
  let ?d1 = "setValue data ?r c ''Invoiced''"
  have r: "0 < ?r" using Cons.prems(1) by simp
  have rest: "\<forall>wk\<in>set ws. 0 < rowIndex wk" using Cons.prems(1) by simp
  obtain data' where m: "markRows c ws ?d1 = (None, data')"
    and len: "length ?d1 \<le> length data'"
    and marked: "\<forall>wk\<in>set ws. rowIndex wk \<le> length data'
            \<and> cellAt (data' ! (rowIndex wk - 1)) (int c - 1) = Str ''Invoiced''"
    and others: "\<forall>j<length ?d1. Suc j \<notin> rowIndex ` set ws \<longrightarrow> data' ! j = ?d1 ! j"
    and same: "(\<forall>wk\<in>set ws. rowIndex wk \<le> length ?d1) \<longrightarrow> length data' = length ?d1"
    using Cons.IH[OF rest Cons.prems(2), of ?d1] by blast
  have l1: "length ?d1 = max (length data) ?r" using r by (rule length_setValue)
  have a: "markRows c (wk # ws) data = (None, data')" using r m by simp
  have b: "length data \<le> length data'" using len l1 by simp
  have c1: "?r \<le> length data' \<and> cellAt (data' ! (?r - 1)) (int c - 1) = Str ''Invoiced''"
  proof (cases "?r \<in> rowIndex ` set ws")
    case True
    then show ?thesis using marked by auto
  next
    case False
    have "?r - 1 < length ?d1" using l1 r by simp
    moreover have "Suc (?r - 1) \<notin> rowIndex ` set ws" using False r by simp
    ultimately have "data' ! (?r - 1) = ?d1 ! (?r - 1)" using others by blast
    then show ?thesis using setValue_row[OF r Cons.prems(2)] len l1 by simp
  qed
  have c: "\<forall>wk\<in>set (wk # ws). rowIndex wk \<le> length data'
            \<and> cellAt (data' ! (rowIndex wk - 1)) (int c - 1) = Str ''Invoiced''"
    using c1 marked by simp
  have d: "\<forall>j<length data. Suc j \<notin> rowIndex ` set (wk # ws) \<longrightarrow> data' ! j = data ! j"
  proof (intro allI impI)
    fix j assume j: "j < length data" and n: "Suc j \<notin> rowIndex ` set (wk # ws)"
    have "j < length ?d1" using j l1 by simp
    moreover have "Suc j \<notin> rowIndex ` set ws" using n by simp
    ultimately have "data' ! j = ?d1 ! j" using others by blast
    moreover have "j \<noteq> ?r - 1" using n r by auto
    ultimately show "data' ! j = data ! j" using j by (simp add: setValue_other)
  qed
  have e: "(\<forall>wk\<in>set (wk # ws). rowIndex wk \<le> length data) \<longrightarrow> length data' = length data"
  proof
    assume h: "\<forall>wk\<in>set (wk # ws). rowIndex wk \<le> length data"
    then have "length ?d1 = length data" using l1 by simp
    then show "length data' = length data" using same h by simp
  qed
  show ?case using a b c d e by blast
qed

lemma indexOfStr_range:
  "indexOfStr hs s = -1 \<or>
   (0 \<le> indexOfStr hs s \<and> indexOfStr hs s < int (length hs) \<and> hs ! nat (indexOfStr hs s) = s)"
proof (induction hs)
  case Nil
  then show ?case by simp
next
  case (Cons h hs)
  show ?case
  proof (cases "h = s")
    case True
    then show ?thesis by simp
  next
    case False
    then show ?thesis using Cons.IH by (auto simp: Let_def nat_add_distrib)
  qed
qed

lemma getColumnIndex_Inr:
  "getColumnIndex data name n = Inr c \<Longrightarrow>
   0 < c \<and> int c - 1 = indexOf (headerRow data n) (Str name)"
  using indexOfStr_range[of "headerRow data n" name]
  by (auto simp: getColumnIndex_def Let_def indexOf_def split: if_splits)

text \<open>
  Claim C4, as the script has it. \<open>markWorkAsInvoiced\<close> reads no paid value: on a MASTER
  sheet with a Paid column, and for work items with row numbers from 1 on, it returns
  without error and the Paid cell of every item given holds \<^verbatim>\<open>'Invoiced'\<close> afterwards,
  whatever it held before; the rows of no item given are unchanged. The claim's re-check
  and skip do not exist: the counterexample below overwrites \<^verbatim>\<open>'Paid'\<close>.
\<close>

theorem markWorkAsInvoiced_overwrites:
  assumes "master w = Some data"
    and "getColumnIndex data ''Paid'' 2 = Inr c"
    and "\<forall>wk\<in>set ws. 0 < rowIndex wk"
  shows "\<exists>data'. markWorkAsInvoiced ws w = (None, w\<lparr>master := Some data'\<rparr>)
     \<and> (\<forall>wk\<in>set ws. cellAt (data' ! (rowIndex wk - 1)) (int c - 1) = Str ''Invoiced'')
     \<and> (\<forall>j<length data. Suc j \<notin> rowIndex ` set ws \<longrightarrow> data' ! j = data ! j)"
proof -
  have c0: "0 < c" using getColumnIndex_Inr[OF assms(2)] by simp
  obtain data' where m: "markRows c ws data = (None, data')"
    and marked: "\<forall>wk\<in>set ws. rowIndex wk \<le> length data'
            \<and> cellAt (data' ! (rowIndex wk - 1)) (int c - 1) = Str ''Invoiced''"
    and others: "\<forall>j<length data. Suc j \<notin> rowIndex ` set ws \<longrightarrow> data' ! j = data ! j"
    using markRows_marks[OF assms(3) c0, of data] by blast
  have "markWorkAsInvoiced ws w = (None, w\<lparr>master := Some data'\<rparr>)"
    using assms(1,2) m by (simp add: markWorkAsInvoiced_def)
  then show ?thesis using marked others by blast
qed

theorem markWorkAsInvoiced_overwrites_witness:
  "master exWorld = Some exMaster
   \<and> getColumnIndex exMaster ''Paid'' 2 = Inr 9
   \<and> 0 < rowIndex (exItem 4 ''S2'' ''Play-by-play'')
   \<and> fst (markWorkAsInvoiced [exItem 4 ''S2'' ''Play-by-play''] exWorld) = None
   \<and> cellAt (the (master (snd (markWorkAsInvoiced [exItem 4 ''S2'' ''Play-by-play''] exWorld))) ! 3) 8
       = Str ''Invoiced''"
proof -
  have h1: "master exWorld = Some exMaster" by (simp add: exWorld_def)
  have h2: "getColumnIndex exMaster ''Paid'' 2 = Inr 9" by code_simp
  have r: "rowIndex (exItem 4 ''S2'' ''Play-by-play'') = 4" by (simp add: exItem_def)
  have h3: "\<forall>wk\<in>set [exItem 4 ''S2'' ''Play-by-play'']. 0 < rowIndex wk" using r by simp
  obtain data' where m: "markWorkAsInvoiced [exItem 4 ''S2'' ''Play-by-play''] exWorld =
        (None, exWorld\<lparr>master := Some data'\<rparr>)"
    and c: "\<forall>wk\<in>set [exItem 4 ''S2'' ''Play-by-play''].
        cellAt (data' ! (rowIndex wk - 1)) (int 9 - 1) = Str ''Invoiced''"
    using markWorkAsInvoiced_overwrites[OF h1 h2 h3] by blast
  have "cellAt (data' ! 3) 8 = Str ''Invoiced''" using c r by simp
  then show ?thesis using h1 h2 r m by simp
qed

theorem markWorkAsInvoiced_recheck_counterexample:
  "paidOf (the (master exWorld)) 3 = Str ''Paid''
   \<and> fst (markWorkAsInvoiced [exItem 4 ''S2'' ''Play-by-play''] exWorld) = None
   \<and> paidOf (the (master (snd (markWorkAsInvoiced [exItem 4 ''S2'' ''Play-by-play''] exWorld)))) 3
       = Str ''Invoiced''"
  by code_simp

section \<open>Properties of the commit\<close>

lemma master_createInvoice: "master (snd (createInvoice clk pays w)) = master w"
  by (simp add: createInvoice_def Let_def split: option.splits sum.splits)

lemma createInvoice_Inl:
  "fst (createInvoice clk pays w) = Inl e \<Longrightarrow> snd (createInvoice clk pays w) = w"
  by (simp add: createInvoice_def Let_def split: option.splits sum.splits)

lemma mark_success_inv:
  "markWorkAsInvoiced ws w1 = (None, w2) \<Longrightarrow>
   \<exists>data c data'. master w1 = Some data \<and> getColumnIndex data ''Paid'' 2 = Inr c
      \<and> markRows c ws data = (None, data') \<and> w2 = w1\<lparr>master := Some data'\<rparr>"
  by (auto simp: markWorkAsInvoiced_def Let_def split: option.splits sum.splits prod.splits)

lemma commit_success_inv:
  assumes "fst (handleCalculatePayRequest clk w) = InvoicesCreated s"
  shows "\<exists>ws pays res w1. getUnpaidWorkFromMaster w = Inr ws \<and> ws \<noteq> []
     \<and> createInvoice clk pays w = (Inr res, w1)
     \<and> markWorkAsInvoiced ws w1 = (None, snd (handleCalculatePayRequest clk w))"
  using assms
  by (auto simp: handleCalculatePayRequest_def Let_def
      split: sum.splits if_splits prod.splits option.splits)

lemma selected_rows:
  assumes "master w = Some data" "getUnpaidWorkFromMaster w = Inr ws"
  shows "rowIndex ` set ws = Suc ` {i. 2 \<le> i \<and> i < length data \<and> unpaidAt data i}"
proof -
  have "ws = map (\<lambda>i. unpaidRow (headerRow data 2) i (data ! i))
               (filter (unpaidAt data) [2..<length data])"
    using assms by (simp add: getUnpaidWorkFromMaster_def)
  then have "map rowIndex ws = map Suc (filter (unpaidAt data) [2..<length data])"
    by (simp add: comp_def unpaidRow_def)
  then have "set (map rowIndex ws) = set (map Suc (filter (unpaidAt data) [2..<length data]))"
    by simp
  then show ?thesis by auto
qed

text \<open>
  Claim C3. When a commit (\<open>handleCalculatePayRequest\<close>) has succeeded, a second commit on
  the state it left, at any time, selects no item, returns the "no unpaid work" result and
  leaves the state, the ledger in it, as it found it.
\<close>

theorem commit_twice_is_idempotent:
  assumes "fst (handleCalculatePayRequest clk w) = InvoicesCreated s"
  shows "getUnpaidWorkFromMaster (snd (handleCalculatePayRequest clk w)) = Inr []
     \<and> handleCalculatePayRequest clk' (snd (handleCalculatePayRequest clk w)) =
         (NoUnpaidWork, snd (handleCalculatePayRequest clk w))"
proof -
  let ?w2 = "snd (handleCalculatePayRequest clk w)"
  obtain ws pays res w1 where sel: "getUnpaidWorkFromMaster w = Inr ws" and ne: "ws \<noteq> []"
     and inv: "createInvoice clk pays w = (Inr res, w1)"
     and mark: "markWorkAsInvoiced ws w1 = (None, ?w2)"
    using commit_success_inv[OF assms] by blast
  have m1: "master w1 = master w" using master_createInvoice[of clk _ w] inv by (metis snd_conv)
  obtain data col data' where d: "master w1 = Some data"
     and col: "getColumnIndex data ''Paid'' 2 = Inr col"
     and rows: "markRows col ws data = (None, data')"
     and w2: "?w2 = w1\<lparr>master := Some data'\<rparr>"
    using mark_success_inv[OF mark] by blast
  have mw: "master w = Some data" using m1 d by simp
  have ri: "rowIndex ` set ws = Suc ` {i. 2 \<le> i \<and> i < length data \<and> unpaidAt data i}"
    using selected_rows[OF mw sel] .
  have mem: "\<exists>i. rowIndex wk = Suc i \<and> 2 \<le> i \<and> i < length data" if "wk \<in> set ws" for wk
  proof -
    have "rowIndex wk \<in> rowIndex ` set ws" using that by simp
    then have "rowIndex wk \<in> Suc ` {i. 2 \<le> i \<and> i < length data \<and> unpaidAt data i}"
      using ri by simp
    then show ?thesis by auto
  qed
  have pos: "\<forall>wk\<in>set ws. 0 < rowIndex wk" using mem by fastforce
  have inside: "\<forall>wk\<in>set ws. rowIndex wk \<le> length data" using mem by fastforce
  have c0: "0 < col" and ci: "int col - 1 = indexOf (headerRow data 2) (Str ''Paid'')"
    using getColumnIndex_Inr[OF col] by simp_all
  obtain data2 where r2: "markRows col ws data = (None, data2)"
     and marked: "\<forall>wk\<in>set ws. rowIndex wk \<le> length data2
            \<and> cellAt (data2 ! (rowIndex wk - 1)) (int col - 1) = Str ''Invoiced''"
     and others: "\<forall>j<length data. Suc j \<notin> rowIndex ` set ws \<longrightarrow> data2 ! j = data ! j"
     and same: "(\<forall>wk\<in>set ws. rowIndex wk \<le> length data) \<longrightarrow> length data2 = length data"
    using markRows_marks[OF pos c0, of data] by blast
  have eq: "data2 = data'" using r2 rows by simp
  have len: "length data' = length data" using same inside eq by simp
  have long: "2 < length data"
  proof -
    obtain wk where "wk \<in> set ws" using ne by (cases ws) auto
    then show ?thesis using mem by fastforce
  qed
  have "Suc 1 \<notin> rowIndex ` set ws" using ri by auto
  then have "data' ! 1 = data ! 1" using others long eq by simp
  then have hdr: "headerRow data' 2 = headerRow data 2" using len long by (simp add: headerRow_def)
  have none: "\<not> unpaidAt data' i" if i: "2 \<le> i" "i < length data" for i
  proof (cases "unpaidAt data i")
    case True
    then have "Suc i \<in> rowIndex ` set ws" using ri i by blast
    then obtain wk where "wk \<in> set ws" "rowIndex wk = Suc i" by auto
    then have "cellAt (data' ! i) (int col - 1) = Str ''Invoiced''" using marked eq by force
    then have "paidOf data' i = Str ''Invoiced''" by (simp add: paidOf_def hdr ci)
    then show ?thesis by (simp add: unpaidAt_def eligible_def)
  next
    case False
    then have "Suc i \<notin> rowIndex ` set ws" using ri by auto
    then have "data' ! i = data ! i" using others i eq by simp
    then have "unpaidAt data' i = unpaidAt data i"
      by (simp add: unpaidAt_def statusOf_def paidOf_def hdr)
    then show ?thesis using False by simp
  qed
  have "filter (unpaidAt data') [2..<length data'] = []"
    using none len by (auto simp: filter_empty_conv)
  then have g: "getUnpaidWorkFromMaster ?w2 = Inr []"
    by (simp add: w2 getUnpaidWorkFromMaster_def)
  then show ?thesis by (simp add: handleCalculatePayRequest_def)
qed

theorem commit_twice_is_idempotent_witness:
  "fst (handleCalculatePayRequest exClock exWorld) =
     InvoicesCreated
       \<lparr>totalTasks = 2, totalStaff = 1, summaryTotal = Num 150000,
        summaryErrors =
          Some \<lparr>unmatchedTaskTypes = [Str ''Basic''], unmatchedStaffKeys = [],
                tasksWithNoRate =
                  [\<lparr>nrStaffName = Str ''S3'', nrTaskType = Str ''Basic'',
                    nrLeague = Str ''NBL'', nrRound = Str ''2'',
                    nrTeams = ''Lions vs Owls''\<rparr>]\<rparr>\<rparr>
   \<and> getUnpaidWorkFromMaster (snd (handleCalculatePayRequest exClock exWorld)) = Inr []
   \<and> handleCalculatePayRequest exClock (snd (handleCalculatePayRequest exClock exWorld)) =
       (NoUnpaidWork, snd (handleCalculatePayRequest exClock exWorld))"
proof -
  have h: "fst (handleCalculatePayRequest exClock exWorld) =
     InvoicesCreated
       \<lparr>totalTasks = 2, totalStaff = 1, summaryTotal = Num 150000,
        summaryErrors =
          Some \<lparr>unmatchedTaskTypes = [Str ''Basic''], unmatchedStaffKeys = [],
                tasksWithNoRate =
                  [\<lparr>nrStaffName = Str ''S3'', nrTaskType = Str ''Basic'',
                    nrLeague = Str ''NBL'', nrRound = Str ''2'',
                    nrTeams = ''Lions vs Owls''\<rparr>]\<rparr>\<rparr>"
    by code_simp
  show ?thesis using h commit_twice_is_idempotent[OF h, of exClock] by blast
qed

text \<open>
  Claim C5. In both commits (\<open>createInvoicesAndMark\<close> and \<open>handleCalculatePayRequest\<close>)
  the ledger is written after \<open>createInvoice\<close> has returned: when \<open>createInvoice\<close>
  throws, the commit reports the failure and returns the spreadsheets as it found them, so
  no paid value has changed.
\<close>

theorem ledger_untouched_when_invoicing_fails:
  "(fst (createInvoice clk pays w) = Inl e \<longrightarrow>
      createInvoicesAndMark clk ws pays w =
        (if length ws = 0 then Failure (Error ''No work data provided'')
         else if length pays = 0 then Failure (Error ''No payment data provided'')
         else Failure e, w))
   \<and> (getUnpaidWorkFromMaster w = Inr ws' \<and> ws' \<noteq> []
       \<and> getPayConfiguration w = Inr c \<and> getStaffMapping w = Inr m
       \<and> fst (createInvoice clk (fst (calculatePayments ws' c m)) w) = Inl e' \<longrightarrow>
      handleCalculatePayRequest clk w = (Failure e', w))"
proof (intro conjI impI)
  assume a: "fst (createInvoice clk pays w) = Inl e"
  have "createInvoice clk pays w = (Inl e, w)"
    using a createInvoice_Inl[OF a] by (metis prod.collapse)
  then show "createInvoicesAndMark clk ws pays w =
        (if length ws = 0 then Failure (Error ''No work data provided'')
         else if length pays = 0 then Failure (Error ''No payment data provided'')
         else Failure e, w)"
    by (simp add: createInvoicesAndMark_def)
next
  assume b: "getUnpaidWorkFromMaster w = Inr ws' \<and> ws' \<noteq> []
       \<and> getPayConfiguration w = Inr c \<and> getStaffMapping w = Inr m
       \<and> fst (createInvoice clk (fst (calculatePayments ws' c m)) w) = Inl e'"
  obtain ps errs where cp: "calculatePayments ws' c m = (ps, errs)"
    by (cases "calculatePayments ws' c m")
  have f: "fst (createInvoice clk ps w) = Inl e'" using b cp by simp
  have "createInvoice clk ps w = (Inl e', w)"
    using f createInvoice_Inl[OF f] by (metis prod.collapse)
  then show "handleCalculatePayRequest clk w = (Failure e', w)"
    using b cp by (simp add: handleCalculatePayRequest_def)
qed

theorem ledger_untouched_when_invoicing_fails_witness:
  "fst (createInvoice exClock exTwoPays exNoInvoicing) = Inl (Error ''Invoicing sheet not found'')
   \<and> createInvoicesAndMark exClock exWork exTwoPays exNoInvoicing =
       (Failure (Error ''Invoicing sheet not found''), exNoInvoicing)
   \<and> getUnpaidWorkFromMaster exNoInvoicing = Inr exWork
   \<and> getPayConfiguration exNoInvoicing = Inr exConfig
   \<and> getStaffMapping exNoInvoicing = Inr exStaff
   \<and> handleCalculatePayRequest exClock exNoInvoicing =
       (Failure (Error ''Invoicing sheet not found''), exNoInvoicing)
   \<and> master exNoInvoicing = Some exMaster"
proof -
  let ?e = "Error ''Invoicing sheet not found''"
  have n: "invoicing exNoInvoicing = None" by (simp add: exNoInvoicing_def)
  have h1: "fst (createInvoice exClock ps exNoInvoicing) = Inl ?e" for ps
    using n by (simp add: createInvoice_def)
  have h2: "getUnpaidWorkFromMaster exNoInvoicing = Inr exWork" by code_simp
  have h3: "exWork \<noteq> []" by (simp add: exWork_def)
  have h4: "getPayConfiguration exNoInvoicing = Inr exConfig"
    by (simp add: getPayConfiguration_def exNoInvoicing_def exWorld_def)
  have h5: "getStaffMapping exNoInvoicing = Inr exStaff"
    by (simp add: getStaffMapping_def exNoInvoicing_def exWorld_def)
  have l1: "length exWork \<noteq> 0" using h3 by simp
  have l2: "length exTwoPays \<noteq> 0" by code_simp
  have m: "master exNoInvoicing = Some exMaster" by (simp add: exNoInvoicing_def exWorld_def)
  note t = ledger_untouched_when_invoicing_fails[of exClock exTwoPays exNoInvoicing ?e
      exWork exWork exConfig exStaff ?e]
  have a: "createInvoicesAndMark exClock exWork exTwoPays exNoInvoicing =
        (if length exWork = 0 then Failure (Error ''No work data provided'')
         else if length exTwoPays = 0 then Failure (Error ''No payment data provided'')
         else Failure ?e, exNoInvoicing)"
    using t h1 by blast
  have a': "createInvoicesAndMark exClock exWork exTwoPays exNoInvoicing = (Failure ?e, exNoInvoicing)"
    using a l1 l2 by simp
  have b: "handleCalculatePayRequest exClock exNoInvoicing = (Failure ?e, exNoInvoicing)"
    using t h1 h2 h3 h4 h5 by blast
  show ?thesis using h1 a' h2 h4 h5 b m by blast
qed

section \<open>Properties of the invoice rows\<close>













section \<open>Rates, errors and grouping\<close>























lemma stringOr_cases: "stringOr (Str s) = Str s \<and> stringOr Undefined = Str []"
  by (simp add: stringOr_def)

lemma numberOr_cases: "numberOr (Num n) = Num n \<and> numberOr NaN = Num 0"
  by (simp add: numberOr_def)

text \<open>
  Claim C10, as the script has it. On the same spreadsheets the preview and
  \<open>calculateStaffPay\<close> fail alike, find no work alike, and otherwise run the same selection
  and the same \<open>calculatePayments\<close>; the preview then returns, under the same names in
  the same order, a cleaned copy of each payment and not the payment itself: the staff key
  and legal name as strings, the total with \<^verbatim>\<open>NaN\<close> as 0, a \<open>taskCount\<close> added, and of
  each task ten properties (the rate with \<^verbatim>\<open>NaN\<close> as 0), the playback link and done date
  left out. The counterexample is a run where the two payment structures differ.
\<close>

theorem preview_is_cleaned_copy:
  "handleCalculatePayPreviewRequest w =
     (case calculateStaffPay w of
        Calculated ws pays errs s \<Rightarrow>
          PreviewCalculated (s\<lparr>summaryErrors := Some errs\<rparr>)
            (map (\<lambda>(k, p). (k, previewPayment p)) pays)
      | r \<Rightarrow> r)
   \<and> map fst (map (\<lambda>(k, p). (k, previewPayment p)) pays) = map fst pays
   \<and> hasMapping (previewPayment p) = hasMapping p
   \<and> staffKey (previewPayment p) = stringOr (staffKey p)
   \<and> legalName (previewPayment p) = stringOr (legalName p)
   \<and> totalAmount (previewPayment p) = numberOr (totalAmount p)
   \<and> taskCount (previewPayment p) = Some (length (tasks p))
   \<and> tasks (previewPayment p) = map previewTask (tasks p)
   \<and> rowIndex (previewTask t) = rowIndex t
   \<and> staffName (previewTask t) = stringOr (staffName t)
   \<and> taskType (previewTask t) = stringOr (taskType t)
   \<and> league (previewTask t) = stringOr (league t)
   \<and> round (previewTask t) = stringOr (round t)
   \<and> team1 (previewTask t) = stringOr (team1 t)
   \<and> team2 (previewTask t) = stringOr (team2 t)
   \<and> rate (previewTask t) = numberOr (rate t)
   \<and> rateSource (previewTask t) = rateSource t
   \<and> hasValidRate (previewTask t) = hasValidRate t
   \<and> playbackLink (previewTask t) = Undefined
   \<and> doneDate (previewTask t) = Undefined
   \<and> stringOr (Str s) = Str s \<and> stringOr Undefined = Str []
   \<and> numberOr (Num n) = Num n \<and> numberOr NaN = Num 0"
proof -
  have a: "handleCalculatePayPreviewRequest w =
     (case calculateStaffPay w of
        Calculated ws pays errs s \<Rightarrow>
          PreviewCalculated (s\<lparr>summaryErrors := Some errs\<rparr>)
            (map (\<lambda>(k, p). (k, previewPayment p)) pays)
      | r \<Rightarrow> r)"
    by (simp add: handleCalculatePayPreviewRequest_def calculateStaffPay_def Let_def
        split: sum.splits prod.splits)
  have b: "map fst (map (\<lambda>(k, p). (k, previewPayment p)) pays) = map fst pays"
    by (induction pays) auto
  show ?thesis
    using a b stringOr_cases[of s] numberOr_cases[of n]
    by (simp add: previewPayment_def previewTask_def)
qed

theorem preview_parity_counterexample:
  "calculateStaffPay exWorld =
     Calculated exWork [(''Alice Nguyen'', exPayment)] exErrors
       \<lparr>totalTasks = 2, totalStaff = 1, summaryTotal = Num 150000, summaryErrors = None\<rparr>
   \<and> handleCalculatePayPreviewRequest exWorld =
     PreviewCalculated
       \<lparr>totalTasks = 2, totalStaff = 1, summaryTotal = Num 150000,
        summaryErrors = Some exErrors\<rparr>
       [(''Alice Nguyen'', exPreviewPayment)]
   \<and> [(''Alice Nguyen'', exPreviewPayment)] \<noteq> [(''Alice Nguyen'', exPayment)]"
  by code_simp

end
